theory Spec2Isabelle
  imports Complex_Main "HOL-Library.Log_Nat" "HOL-Library.Signed_Division"
begin

section \<open>The message model of message.go\<close>

text \<open>
  The Go file passes messages around as \<^verbatim>\<open>*Message\<close>. The model keeps the pointers: a
  store holds the allocated \<^verbatim>\<open>Message\<close> objects, an address is an index into it, and every
  function that reads through a pointer takes the store. A function that allocates
  returns the extended store. Panics of the Go runtime are values of \<open>panic\<close>.
\<close>

datatype panic = NilDereference | Dangling | SliceOutOfRange

datatype ref = Nil | Ref nat

text \<open>\<^verbatim>\<open>json.RawMessage\<close> is a byte slice; \<open>None\<close> is the nil slice.\<close>

type_synonym RawMessage = "string option"

record Message =
  Header :: "string \<rightharpoonup> string"
  Payload :: RawMessage

type_synonym store = "Message list"

text \<open>
  Reading through a pointer. A nil pointer panics. An address outside the store cannot be
  built in Go (memory is garbage collected); the branch only makes the function total.
\<close>

definition deref :: "store \<Rightarrow> ref \<Rightarrow> panic + Message" where
  "deref s p =
     (case p of
        Nil \<Rightarrow> Inl NilDereference
      | Ref a \<Rightarrow> if a < length s then Inr (s ! a) else Inl Dangling)"

text \<open>\<^verbatim>\<open>&Message{...}\<close>: a fresh object at the end of the store.\<close>

definition alloc :: "store \<Rightarrow> Message \<Rightarrow> store \<times> ref" where
  "alloc s m = (s @ [m], Ref (length s))"

text \<open>Indexing a Go map with a key it does not hold gives the zero value of the value type.\<close>

definition index_map :: "(string \<rightharpoonup> string) \<Rightarrow> string \<Rightarrow> string" where
  "index_map h k = (case h k of None \<Rightarrow> [] | Some v \<Rightarrow> v)"

subsection \<open>Constructors of raw messages\<close>

definition NewContext :: "store \<Rightarrow> string \<Rightarrow> string \<Rightarrow> store \<times> ref" where
  "NewContext s namespace name =
     alloc s \<lparr>Header = [''namespace'' \<mapsto> namespace, ''name'' \<mapsto> name], Payload = None\<rparr>"

definition NewEvent :: "store \<Rightarrow> string \<Rightarrow> string \<Rightarrow> string \<Rightarrow> string \<Rightarrow> store \<times> ref" where
  "NewEvent s namespace name messageId dialogRequestId =
     (let m = \<lparr>Header = [''namespace'' \<mapsto> namespace, ''name'' \<mapsto> name,
                           ''messageId'' \<mapsto> messageId],
                 Payload = None\<rparr>;
          m' = (if dialogRequestId \<noteq> []
                then m\<lparr>Header := (Header m)(''dialogRequestId'' \<mapsto> dialogRequestId)\<rparr>
                else m)
      in alloc s m')"

subsection \<open>The discriminator\<close>

text \<open>\<^verbatim>\<open>fmt.Sprintf("%s.%s", a, b)\<close> on two strings.\<close>

definition String :: "store \<Rightarrow> ref \<Rightarrow> panic + string" where
  "String s m =
     (case deref s m of
        Inl e \<Rightarrow> Inl e
      | Inr msg \<Rightarrow>
          Inr (index_map (Header msg) ''namespace'' @ ''.'' @ index_map (Header msg) ''name''))"

subsection \<open>Typed messages\<close>

text \<open>
  The payload structs of the ten typed messages. \<^verbatim>\<open>ClearBehavior\<close>, \<^verbatim>\<open>AudioItem\<close>,
  \<^verbatim>\<open>PlayBehavior\<close> and \<^verbatim>\<open>PlayerActivity\<close> are declared in other files of the package;
  they are type parameters here, and their Go zero value is written \<open>0\<close>.
  A \<^verbatim>\<open>float64\<close> field holds the rational number its (finite) value denotes.
\<close>

type_synonym float64 = rat

record 'cb ClearQueue_Payload =
  ClearBehavior :: 'cb

record Exception_Payload =
  Code :: string
  Description :: string

record ExpectSpeech_Payload =
  TimeoutInMilliseconds :: float64

record ('ai, 'pb) Play_Payload =
  AudioItem :: 'ai
  PlayBehavior :: 'pb

record 'pa PlaybackState_Payload =
  Token :: string
  OffsetInMilliseconds :: float64
  PlayerActivity :: 'pa

record Recognize_Payload =
  Profile :: string
  Format :: string

record Speak_Payload =
  Format :: string
  URL :: string

text \<open>
  The interface \<^verbatim>\<open>TypedMessage\<close> has eleven implementations: \<^verbatim>\<open>*Message\<close> itself and a
  pointer to each of the ten structs, which embed a \<^verbatim>\<open>*Message\<close> and add a \<^verbatim>\<open>Payload\<close>
  struct. A constructor carries the embedded pointer and the payload struct; the payload
  \<^verbatim>\<open>struct{}\<close> is \<open>unit\<close>.
\<close>

datatype ('cb, 'ai, 'pb, 'pa) TypedMessage =
    Message_ptr ref
  | ClearQueue ref "'cb ClearQueue_Payload"
  | Exception ref Exception_Payload
  | ExpectSpeech ref ExpectSpeech_Payload
  | ExpectSpeechTimedOut ref unit
  | Play ref "('ai, 'pb) Play_Payload"
  | PlaybackState ref "'pa PlaybackState_Payload"
  | Recognize ref Recognize_Payload
  | Speak ref Speak_Payload
  | Stop ref unit
  | SynchronizeState ref unit

text \<open>\<^verbatim>\<open>new(T)\<close> gives a struct whose fields all have their zero value.\<close>

definition new_ClearQueue_Payload :: "('cb::zero) ClearQueue_Payload" where
  "new_ClearQueue_Payload = \<lparr>ClearBehavior = 0\<rparr>"

definition new_Exception_Payload :: Exception_Payload where
  "new_Exception_Payload = \<lparr>Code = [], Description = []\<rparr>"

definition new_ExpectSpeech_Payload :: ExpectSpeech_Payload where
  "new_ExpectSpeech_Payload = \<lparr>TimeoutInMilliseconds = 0\<rparr>"

definition new_Play_Payload :: "('ai::zero, 'pb::zero) Play_Payload" where
  "new_Play_Payload = \<lparr>AudioItem = 0, PlayBehavior = 0\<rparr>"

definition new_PlaybackState_Payload :: "('pa::zero) PlaybackState_Payload" where
  "new_PlaybackState_Payload = \<lparr>Token = [], OffsetInMilliseconds = 0, PlayerActivity = 0\<rparr>"

definition new_Recognize_Payload :: Recognize_Payload where
  "new_Recognize_Payload = \<lparr>Profile = [], Format = []\<rparr>"

definition new_Speak_Payload :: Speak_Payload where
  "new_Speak_Payload = \<lparr>Format = [], URL = []\<rparr>"

text \<open>
  \<^verbatim>\<open>json.Unmarshal(data, &dst)\<close> belongs to the Go standard library, not to this package.
  It is a parameter of the model: a decoder takes the bytes and the struct it is asked to
  fill, and returns the struct as it leaves it together with its error (\<open>None\<close> is
  \<^verbatim>\<open>nil\<close>). Go picks the decoding by reflection on the destination type; the model has
  one decoder for each destination type that \<^verbatim>\<open>fill\<close> meets.
\<close>

type_synonym error = string

type_synonym 'p decoder = "RawMessage \<Rightarrow> 'p \<Rightarrow> 'p \<times> error option"

record ('cb, 'ai, 'pb, 'pa) Unmarshal =
  into_ClearQueue :: "'cb ClearQueue_Payload decoder"
  into_Exception :: "Exception_Payload decoder"
  into_ExpectSpeech :: "ExpectSpeech_Payload decoder"
  into_Play :: "('ai, 'pb) Play_Payload decoder"
  into_PlaybackState :: "'pa PlaybackState_Payload decoder"
  into_Recognize :: "Recognize_Payload decoder"
  into_Speak :: "Speak_Payload decoder"
  into_empty :: "unit decoder"

text \<open>
  \<^verbatim>\<open>fill(dst, src)\<close>. The destination \<^verbatim>\<open>new(T)\<close> is given by the constructor of \<open>T\<close> and
  the zero payload. The field \<^verbatim>\<open>Message\<close> is set to the pointer \<open>src\<close>; the field
  \<^verbatim>\<open>Payload\<close> of each of the ten structs is of kind struct, so the early return is never
  taken; the decoder runs on \<^verbatim>\<open>src.Payload\<close> and its error is dropped.
\<close>

definition fill :: "'p decoder \<Rightarrow> (ref \<Rightarrow> 'p \<Rightarrow> 'tm) \<Rightarrow> 'p \<Rightarrow> store \<Rightarrow> ref \<Rightarrow> panic + 'tm" where
  "fill unmarshal dst payload s src =
     (case deref s src of
        Inl e \<Rightarrow> Inl e
      | Inr msg \<Rightarrow> Inr (dst src (fst (unmarshal (Payload msg) payload))))"

definition Typed ::
  "('cb::zero, 'ai::zero, 'pb::zero, 'pa::zero) Unmarshal \<Rightarrow> store \<Rightarrow> ref
     \<Rightarrow> panic + ('cb, 'ai, 'pb, 'pa) TypedMessage" where
  "Typed json s m =
     (case String s m of
        Inl e \<Rightarrow> Inl e
      | Inr d \<Rightarrow>
          if d = ''AudioPlayer.ClearQueue'' then
            fill (into_ClearQueue json) ClearQueue new_ClearQueue_Payload s m
          else if d = ''AudioPlayer.Play'' then
            fill (into_Play json) Play new_Play_Payload s m
          else if d = ''AudioPlayer.PlaybackState'' then
            fill (into_PlaybackState json) PlaybackState new_PlaybackState_Payload s m
          else if d = ''AudioPlayer.Stop'' then
            fill (into_empty json) Stop () s m
          else if d = ''SpeechRecognizer.ExpectSpeech'' then
            fill (into_ExpectSpeech json) ExpectSpeech new_ExpectSpeech_Payload s m
          else if d = ''SpeechRecognizer.ExpectSpeechTimedOut'' then
            fill (into_empty json) ExpectSpeechTimedOut () s m
          else if d = ''SpeechRecognizer.Recognize'' then
            fill (into_Recognize json) Recognize new_Recognize_Payload s m
          else if d = ''SpeechSynthesizer.Speak'' then
            fill (into_Speak json) Speak new_Speak_Payload s m
          else if d = ''System.Exception'' then
            fill (into_Exception json) Exception new_Exception_Payload s m
          else if d = ''System.SynchronizeState'' then
            fill (into_empty json) SynchronizeState () s m
          else Inr (Message_ptr m))"

text \<open>
  \<^verbatim>\<open>GetMessage\<close> returns its receiver; the ten structs get the method from the embedded
  pointer, so on them it returns that pointer.
\<close>

fun GetMessage :: "('cb, 'ai, 'pb, 'pa) TypedMessage \<Rightarrow> ref" where
  "GetMessage (Message_ptr m) = m"
| "GetMessage (ClearQueue m _) = m"
| "GetMessage (Exception m _) = m"
| "GetMessage (ExpectSpeech m _) = m"
| "GetMessage (ExpectSpeechTimedOut m _) = m"
| "GetMessage (Play m _) = m"
| "GetMessage (PlaybackState m _) = m"
| "GetMessage (Recognize m _) = m"
| "GetMessage (Speak m _) = m"
| "GetMessage (Stop m _) = m"
| "GetMessage (SynchronizeState m _) = m"

text \<open>The dynamic type of a \<^verbatim>\<open>TypedMessage\<close>, as a type switch sees it.\<close>

datatype variant =
    T_Message | T_ClearQueue | T_Exception | T_ExpectSpeech | T_ExpectSpeechTimedOut
  | T_Play | T_PlaybackState | T_Recognize | T_Speak | T_Stop | T_SynchronizeState

fun variant_of :: "('cb, 'ai, 'pb, 'pa) TypedMessage \<Rightarrow> variant" where
  "variant_of (Message_ptr _) = T_Message"
| "variant_of (ClearQueue _ _) = T_ClearQueue"
| "variant_of (Exception _ _) = T_Exception"
| "variant_of (ExpectSpeech _ _) = T_ExpectSpeech"
| "variant_of (ExpectSpeechTimedOut _ _) = T_ExpectSpeechTimedOut"
| "variant_of (Play _ _) = T_Play"
| "variant_of (PlaybackState _ _) = T_PlaybackState"
| "variant_of (Recognize _ _) = T_Recognize"
| "variant_of (Speak _ _) = T_Speak"
| "variant_of (Stop _ _) = T_Stop"
| "variant_of (SynchronizeState _ _) = T_SynchronizeState"

text \<open>
  The registry table as the specification lists it: the ten (namespace, name) pairs and
  the variant each selects. It is what the theorems below compare \<open>Typed\<close> with.
\<close>

definition spec_registry :: "(string \<times> string \<times> variant) list" where
  "spec_registry =
     [(''AudioPlayer'', ''ClearQueue'', T_ClearQueue),
      (''AudioPlayer'', ''Play'', T_Play),
      (''AudioPlayer'', ''PlaybackState'', T_PlaybackState),
      (''AudioPlayer'', ''Stop'', T_Stop),
      (''SpeechRecognizer'', ''ExpectSpeech'', T_ExpectSpeech),
      (''SpeechRecognizer'', ''ExpectSpeechTimedOut'', T_ExpectSpeechTimedOut),
      (''SpeechRecognizer'', ''Recognize'', T_Recognize),
      (''SpeechSynthesizer'', ''Speak'', T_Speak),
      (''System'', ''Exception'', T_Exception),
      (''System'', ''SynchronizeState'', T_SynchronizeState)]"

text \<open>\<^verbatim>\<open>strings.HasPrefix\<close> and the slice expression \<^verbatim>\<open>s[n:]\<close>, which panics out of range.\<close>

definition HasPrefix :: "string \<Rightarrow> string \<Rightarrow> bool" where
  "HasPrefix s pre = (length s \<ge> length pre \<and> take (length pre) s = pre)"

definition slice_from :: "string \<Rightarrow> nat \<Rightarrow> panic + string" where
  "slice_from s n = (if n \<le> length s then Inr (drop n s) else Inl SliceOutOfRange)"

definition ContentId :: "Speak_Payload \<Rightarrow> panic + string" where
  "ContentId payload =
     (if \<not> HasPrefix (URL payload) ''cid:'' then Inr []
      else slice_from (URL payload) 4)"

subsection \<open>Durations and floating-point numbers\<close>

text \<open>
  \<^verbatim>\<open>time.Duration\<close> is an \<^verbatim>\<open>int64\<close> count of nanoseconds. The model holds its value as an
  \<open>int\<close>; \<open>wrap64\<close> is the two's-complement wrap-around of a product that leaves the
  range of \<^verbatim>\<open>int64\<close>.
\<close>

type_synonym Duration = int

definition Millisecond :: Duration where
  "Millisecond = 1000000"

definition Second :: Duration where
  "Second = 1000000000"

definition wrap64 :: "int \<Rightarrow> int" where
  "wrap64 x = (x + 2 ^ 63) mod 2 ^ 64 - 2 ^ 63"

text \<open>
  The conversion \<^verbatim>\<open>time.Duration(f)\<close> of a \<^verbatim>\<open>float64\<close> discards the fraction. When the
  integer part does not fit \<^verbatim>\<open>int64\<close> the Go specification leaves the result to the
  implementation: that is \<open>None\<close>.
\<close>

definition trunc_toward_zero :: "rat \<Rightarrow> int" where
  "trunc_toward_zero f = (if 0 \<le> f then \<lfloor>f\<rfloor> else \<lceil>f\<rceil>)"

definition Duration_of_float64 :: "float64 \<Rightarrow> Duration option" where
  "Duration_of_float64 f =
     (let t = trunc_toward_zero f
      in if - (2 ^ 63) \<le> t \<and> t < 2 ^ 63 then Some t else None)"

text \<open>
  Arithmetic on \<^verbatim>\<open>float64\<close> is the exact operation followed by rounding to the nearest
  number of the binary64 format, ties to the even significand: 53 significant bits, the
  least exponent of a normal number is \<open>-1022\<close>. The results met here stay far below the
  largest finite number, so overflow to infinity is not part of the model.
\<close>

definition pow2 :: "int \<Rightarrow> rat" where
  "pow2 k = (if 0 \<le> k then 2 ^ nat k else 1 / 2 ^ nat (- k))"

definition ilog2 :: "rat \<Rightarrow> int" where
  "ilog2 x =
     (case quotient_of x of
        (p, q) \<Rightarrow> let k = bitlen p - bitlen q in if pow2 k \<le> x then k else k - 1)"

definition round_half_even :: "rat \<Rightarrow> int" where
  "round_half_even y =
     (let n = \<lfloor>y\<rfloor>; r = y - of_int n
      in if r < 1 / 2 then n else if 1 / 2 < r then n + 1 else if even n then n else n + 1)"

definition round_float64 :: "rat \<Rightarrow> float64" where
  "round_float64 x =
     (if x = 0 then 0
      else let e = max (ilog2 \<bar>x\<bar>) (- 1022) - 52
           in sgn x * of_int (round_half_even (\<bar>x\<bar> / pow2 e)) * pow2 e)"

definition float64_of_int64 :: "int \<Rightarrow> float64" where
  "float64_of_int64 i = round_float64 (of_int i)"

definition float64_add :: "float64 \<Rightarrow> float64 \<Rightarrow> float64" where
  "float64_add a b = round_float64 (a + b)"

definition float64_mul :: "float64 \<Rightarrow> float64 \<Rightarrow> float64" where
  "float64_mul a b = round_float64 (a * b)"

definition float64_div :: "float64 \<Rightarrow> float64 \<Rightarrow> float64" where
  "float64_div a b = round_float64 (a / b)"

text \<open>
  \<^verbatim>\<open>Duration.Seconds\<close> of the Go standard library:
  \<^verbatim>\<open>sec := d / Second; nsec := d % Second; return float64(sec) + float64(nsec)/1e9\<close>.
  Go's integer division truncates toward zero.
\<close>

definition Seconds :: "Duration \<Rightarrow> float64" where
  "Seconds d =
     (let sec = d sdiv Second; nsec = d smod Second
      in float64_add (float64_of_int64 sec) (float64_div (float64_of_int64 nsec) 1000000000))"

subsection \<open>Accessors and the PlaybackState constructor\<close>

definition Timeout :: "ExpectSpeech_Payload \<Rightarrow> Duration option" where
  "Timeout payload =
     (case Duration_of_float64 (TimeoutInMilliseconds payload) of
        None \<Rightarrow> None
      | Some d \<Rightarrow> Some (wrap64 (d * Millisecond)))"

text \<open>
  \<^verbatim>\<open>NewPlaybackState\<close> returns a pointer to a fresh \<^verbatim>\<open>PlaybackState\<close>; the model returns
  the two fields of that struct, the embedded pointer and the payload.
\<close>

definition NewPlaybackState ::
  "store \<Rightarrow> string \<Rightarrow> Duration \<Rightarrow> 'pa \<Rightarrow> store \<times> ref \<times> ('pa::zero) PlaybackState_Payload" where
  "NewPlaybackState s token offset activity =
     (case NewContext s ''AudioPlayer'' ''PlaybackState'' of
        (s', m) \<Rightarrow>
          (s', m,
           new_PlaybackState_Payload
             \<lparr>OffsetInMilliseconds := float64_mul (Seconds offset) 1000,
              PlayerActivity := activity,
              Token := token\<rparr>))"

definition Offset :: "'pa PlaybackState_Payload \<Rightarrow> Duration option" where
  "Offset payload =
     (case Duration_of_float64 (OffsetInMilliseconds payload) of
        None \<Rightarrow> None
      | Some d \<Rightarrow> Some (wrap64 (d * Millisecond)))"

subsection \<open>Contracts of the JSON decoder\<close>

text \<open>
  What a theorem may ask of the decoder it is given. \<open>keeps f dec data\<close>: on the bytes
  \<open>data\<close> the decoder \<open>dec\<close> does not write the part \<open>f\<close> of its destination (a field it
  could not decode, or with \<open>f\<close> the identity the whole struct).
\<close>

definition keeps :: "('p \<Rightarrow> 'a) \<Rightarrow> 'p decoder \<Rightarrow> RawMessage \<Rightarrow> bool" where
  "keeps f dec data = (\<forall>dst. f (fst (dec data dst)) = f dst)"

text \<open>
  \<open>rejects_nil json\<close>: given the nil slice, every decoder leaves its destination as it
  found it. \<^verbatim>\<open>json.Unmarshal\<close> checks that its input is well-formed before it writes,
  and the empty input is not.
\<close>

definition rejects_nil :: "('cb, 'ai, 'pb, 'pa) Unmarshal \<Rightarrow> bool" where
  "rejects_nil json =
     (keeps id (into_ClearQueue json) None \<and> keeps id (into_Exception json) None \<and>
      keeps id (into_ExpectSpeech json) None \<and> keeps id (into_Play json) None \<and>
      keeps id (into_PlaybackState json) None \<and> keeps id (into_Recognize json) None \<and>
      keeps id (into_Speak json) None \<and> keeps id (into_empty json) None)"

subsection \<open>What the specification asks of the accessors\<close>

text \<open>
  The specification's reading of \<^verbatim>\<open>timeout()\<close>: the duration \<open>d\<close> is \<open>f\<close> milliseconds with
  no rounding beyond the precision of the duration type, which counts whole nanoseconds.
\<close>

definition spec_exact_milliseconds :: "float64 \<Rightarrow> Duration \<Rightarrow> bool" where
  "spec_exact_milliseconds f d = (\<bar>of_int d - f * 1000000\<bar> < 1)"

subsection \<open>A sample decoder\<close>

text \<open>
  A stand-in for \<^verbatim>\<open>json.Unmarshal\<close> at which the theorems are instantiated. On the three
  \<^verbatim>\<open>Exception\<close> payloads listed it does what the Go decoder does: a number where a string
  is expected is reported as an error and leaves that field alone, the other fields are
  decoded. Every other input it rejects without writing.
\<close>

definition reject :: "'p decoder" where
  "reject data dst = (dst, Some ''unexpected end of JSON input'')"

definition sample_Exception_decoder :: "Exception_Payload decoder" where
  \<open>sample_Exception_decoder data dst =
     (if data = Some ''{"code": 123}'' then
        (dst, Some ''json: cannot unmarshal number into Go struct field .code of type string'')
      else if data = Some ''{"code": 123, "description": "boom"}'' then
        (dst\<lparr>Description := ''boom''\<rparr>,
         Some ''json: cannot unmarshal number into Go struct field .code of type string'')
      else if data = Some ''{"code": "E1", "description": "boom"}'' then
        (dst\<lparr>Code := ''E1'', Description := ''boom''\<rparr>, None)
      else reject data dst)\<close>

definition sample_json :: "(nat, nat, nat, nat) Unmarshal" where
  "sample_json =
     \<lparr>into_ClearQueue = reject, into_Exception = sample_Exception_decoder,
      into_ExpectSpeech = reject, into_Play = reject, into_PlaybackState = reject,
      into_Recognize = reject, into_Speak = reject, into_empty = reject\<rparr>"

section \<open>Properties\<close>

subsection \<open>Auxiliary facts\<close>

lemma split_dot:
  "CHR ''.'' \<notin> set a \<Longrightarrow> CHR ''.'' \<notin> set b \<Longrightarrow> x @ ''.'' @ y = a @ ''.'' @ b
     \<Longrightarrow> x = a \<and> y = b"
  by (induction a arbitrary: x) (auto simp: Cons_eq_append_conv append_eq_Cons_conv)

lemma registry_no_dot:
  "(a, b, v) \<in> set spec_registry \<Longrightarrow> CHR ''.'' \<notin> set a \<and> CHR ''.'' \<notin> set b"
  by (auto simp: spec_registry_def)

lemma String_header:
  "deref s m = Inr msg \<Longrightarrow>
   String s m = Inr (index_map (Header msg) ''namespace'' @ ''.'' @ index_map (Header msg) ''name'')"
  by (simp add: String_def)

lemma index_map_Some: "h k = Some v \<Longrightarrow> index_map h k = v"
  by (simp add: index_map_def)

lemma fill_ok:
  "deref s m = Inr msg \<Longrightarrow> fill u C z s m = Inr (C m (fst (u (Payload msg) z)))"
  by (simp add: fill_def)

text \<open>
  On a registered discriminator \<open>Typed\<close> returns the variant of the table; it holds the
  pointer it was given, and its payload is what the decoder made of a zero struct. The
  decoder's error does not occur in the result.
\<close>

lemma Typed_registered:
  assumes "(ns, n, v) \<in> set spec_registry" and "deref s m = Inr msg"
    and "index_map (Header msg) ''namespace'' = ns" and "index_map (Header msg) ''name'' = n"
  shows "\<exists>t. Typed json s m = Inr t \<and> variant_of t = v \<and> v \<noteq> T_Message \<and> GetMessage t = m \<and>
     (case t of
        ClearQueue _ p \<Rightarrow> p = fst (into_ClearQueue json (Payload msg) new_ClearQueue_Payload)
      | Exception _ p \<Rightarrow> p = fst (into_Exception json (Payload msg) new_Exception_Payload)
      | ExpectSpeech _ p \<Rightarrow> p = fst (into_ExpectSpeech json (Payload msg) new_ExpectSpeech_Payload)
      | Play _ p \<Rightarrow> p = fst (into_Play json (Payload msg) new_Play_Payload)
      | PlaybackState _ p \<Rightarrow>
          p = fst (into_PlaybackState json (Payload msg) new_PlaybackState_Payload)
      | Recognize _ p \<Rightarrow> p = fst (into_Recognize json (Payload msg) new_Recognize_Payload)
      | Speak _ p \<Rightarrow> p = fst (into_Speak json (Payload msg) new_Speak_Payload)
      | _ \<Rightarrow> True)"
  using assms unfolding spec_registry_def
  by (auto simp: Typed_def String_header fill_ok)

lemma wrap64_id: "- (2 ^ 63) \<le> x \<Longrightarrow> x < 2 ^ 63 \<Longrightarrow> wrap64 x = x"
  by (simp add: wrap64_def)

subsection \<open>The registry\<close>

text \<open>
  Claim C1. For each of the ten rows of the registry table, \<open>Typed\<close> on a message whose
  header holds that namespace and that name returns the variant of the row, and never
  the generic \<^verbatim>\<open>*Message\<close>.
\<close>

theorem Typed_registry_variant:
  assumes "(ns, n, v) \<in> set spec_registry" and "deref s m = Inr msg"
    and "Header msg ''namespace'' = Some ns" and "Header msg ''name'' = Some n"
  shows "\<exists>t. Typed json s m = Inr t \<and> variant_of t = v \<and> variant_of t \<noteq> T_Message"
proof -
  have ix: "index_map (Header msg) ''namespace'' = ns" "index_map (Header msg) ''name'' = n"
    using assms(3,4) by (simp_all add: index_map_Some)
  from Typed_registered[OF assms(1,2) ix, of json] show ?thesis by blast
qed

theorem Typed_registry_variant_witness:
  "\<exists>t. Typed sample_json
      [\<lparr>Header = [''namespace'' \<mapsto> ''AudioPlayer'', ''name'' \<mapsto> ''Play'',
                  ''messageId'' \<mapsto> ''m7''],
        Payload = None\<rparr>] (Ref 0) = Inr t \<and> variant_of t = T_Play"
proof -
  let ?msg = "\<lparr>Header = [''namespace'' \<mapsto> ''AudioPlayer'', ''name'' \<mapsto> ''Play'',
                          ''messageId'' \<mapsto> ''m7''],
                Payload = None\<rparr>"
  have r: "(''AudioPlayer'', ''Play'', T_Play) \<in> set spec_registry"
    by (simp add: spec_registry_def)
  have d: "deref [?msg] (Ref 0) = Inr ?msg"
    by (simp add: deref_def)
  have h: "Header ?msg ''namespace'' = Some ''AudioPlayer''" "Header ?msg ''name'' = Some ''Play''"
    by simp_all
  from Typed_registry_variant[OF r d h, of sample_json] show ?thesis by blast
qed

text \<open>
  Claim C2. When the pair of namespace and name read from the header (the empty string
  for a key the header lacks) is in no row of the registry table, \<open>Typed\<close> returns the
  generic \<^verbatim>\<open>*Message\<close>: the pointer it was given, hence the same header and payload. It
  is a result, not a panic.
\<close>

theorem Typed_unregistered_generic:
  assumes "deref s m = Inr msg"
    and "(index_map (Header msg) ''namespace'', index_map (Header msg) ''name'')
           \<notin> set (map (\<lambda>(a, b, v). (a, b)) spec_registry)"
  shows "\<exists>t. Typed json s m = Inr t \<and> t = Message_ptr m \<and> variant_of t = T_Message \<and>
     deref s (GetMessage t) = Inr msg"
proof -
  define ns where "ns = index_map (Header msg) ''namespace''"
  define n where "n = index_map (Header msg) ''name''"
  have d: "String s m = Inr (ns @ ''.'' @ n)"
    using assms(1) by (simp add: String_header ns_def n_def)
  have ne: "ns @ ''.'' @ n \<noteq> a @ ''.'' @ b" if "(a, b, v) \<in> set spec_registry" for a b v
  proof
    assume "ns @ ''.'' @ n = a @ ''.'' @ b"
    with registry_no_dot[OF that] have "ns = a \<and> n = b"
      by (blast dest: split_dot)
    with that have "(ns, n) \<in> set (map (\<lambda>(a, b, v). (a, b)) spec_registry)"
      by force
    with assms(2) show False
      by (simp add: ns_def n_def)
  qed
  have "ns @ ''.'' @ n \<noteq> ''AudioPlayer.ClearQueue''"
       "ns @ ''.'' @ n \<noteq> ''AudioPlayer.Play''"
       "ns @ ''.'' @ n \<noteq> ''AudioPlayer.PlaybackState''"
       "ns @ ''.'' @ n \<noteq> ''AudioPlayer.Stop''"
       "ns @ ''.'' @ n \<noteq> ''SpeechRecognizer.ExpectSpeech''"
       "ns @ ''.'' @ n \<noteq> ''SpeechRecognizer.ExpectSpeechTimedOut''"
       "ns @ ''.'' @ n \<noteq> ''SpeechRecognizer.Recognize''"
       "ns @ ''.'' @ n \<noteq> ''SpeechSynthesizer.Speak''"
       "ns @ ''.'' @ n \<noteq> ''System.Exception''"
       "ns @ ''.'' @ n \<noteq> ''System.SynchronizeState''"
    using ne[of "''AudioPlayer''" "''ClearQueue''" T_ClearQueue]
          ne[of "''AudioPlayer''" "''Play''" T_Play]
          ne[of "''AudioPlayer''" "''PlaybackState''" T_PlaybackState]
          ne[of "''AudioPlayer''" "''Stop''" T_Stop]
          ne[of "''SpeechRecognizer''" "''ExpectSpeech''" T_ExpectSpeech]
          ne[of "''SpeechRecognizer''" "''ExpectSpeechTimedOut''" T_ExpectSpeechTimedOut]
          ne[of "''SpeechRecognizer''" "''Recognize''" T_Recognize]
          ne[of "''SpeechSynthesizer''" "''Speak''" T_Speak]
          ne[of "''System''" "''Exception''" T_Exception]
          ne[of "''System''" "''SynchronizeState''" T_SynchronizeState]
    by (simp_all add: spec_registry_def)
  then have "Typed json s m = Inr (Message_ptr m)"
    unfolding Typed_def d by simp
  with assms(1) show ?thesis by simp
qed

theorem Typed_unregistered_generic_witness:
  "(\<exists>t. Typed sample_json
      [\<lparr>Header = [''namespace'' \<mapsto> ''Alerts'', ''name'' \<mapsto> ''SetAlert''],
        Payload = Some ''{}''\<rparr>] (Ref 0) = Inr t \<and> t = Message_ptr (Ref 0)) \<and>
   (\<exists>t. Typed sample_json [\<lparr>Header = Map.empty, Payload = None\<rparr>] (Ref 0) = Inr t \<and>
      t = Message_ptr (Ref 0))"
proof -
  let ?a = "\<lparr>Header = [''namespace'' \<mapsto> ''Alerts'', ''name'' \<mapsto> ''SetAlert''],
              Payload = Some ''{}''\<rparr>"
  let ?b = "\<lparr>Header = Map.empty :: string \<rightharpoonup> string, Payload = None :: RawMessage\<rparr>"
  have da: "deref [?a] (Ref 0) = Inr ?a" and db: "deref [?b] (Ref 0) = Inr ?b"
    by (simp_all add: deref_def)
  have ha: "(index_map (Header ?a) ''namespace'', index_map (Header ?a) ''name'')
              \<notin> set (map (\<lambda>(a, b, v). (a, b)) spec_registry)"
    by (simp add: index_map_def spec_registry_def)
  have hb: "(index_map (Header ?b) ''namespace'', index_map (Header ?b) ''name'')
              \<notin> set (map (\<lambda>(a, b, v). (a, b)) spec_registry)"
    by (simp add: index_map_def spec_registry_def)
  from Typed_unregistered_generic[OF da ha, of sample_json]
       Typed_unregistered_generic[OF db hb, of sample_json]
  show ?thesis by blast
qed

subsection \<open>Decoding is lenient\<close>

text \<open>
  Claim C3. On a registered discriminator \<open>Typed\<close> returns the variant of the table
  whatever the decoder does with the payload bytes and whatever error it reports: there
  is no panic and no error in the result. The variant holds the pointer it was given and
  the store is not written, so the raw payload bytes are those of the input. Every part
  of the payload struct that the decoder does not write on these bytes (\<open>keeps\<close>) has the
  value it has in a zero struct: a single field when the decoding is partial, the whole
  struct when it fails altogether.
\<close>

theorem Typed_swallows_decode_errors:
  assumes "(ns, n, v) \<in> set spec_registry" and "deref s m = Inr msg"
    and "Header msg ''namespace'' = Some ns" and "Header msg ''name'' = Some n"
  shows "\<exists>t. Typed json s m = Inr t \<and> variant_of t = v \<and> v \<noteq> T_Message \<and> GetMessage t = m \<and>
     deref s (GetMessage t) = Inr msg \<and>
     (case t of
        ClearQueue _ p \<Rightarrow>
          keeps f_cq (into_ClearQueue json) (Payload msg) \<longrightarrow> f_cq p = f_cq new_ClearQueue_Payload
      | Exception _ p \<Rightarrow>
          keeps f_ex (into_Exception json) (Payload msg) \<longrightarrow> f_ex p = f_ex new_Exception_Payload
      | ExpectSpeech _ p \<Rightarrow>
          keeps f_es (into_ExpectSpeech json) (Payload msg)
            \<longrightarrow> f_es p = f_es new_ExpectSpeech_Payload
      | Play _ p \<Rightarrow>
          keeps f_pl (into_Play json) (Payload msg) \<longrightarrow> f_pl p = f_pl new_Play_Payload
      | PlaybackState _ p \<Rightarrow>
          keeps f_ps (into_PlaybackState json) (Payload msg)
            \<longrightarrow> f_ps p = f_ps new_PlaybackState_Payload
      | Recognize _ p \<Rightarrow>
          keeps f_re (into_Recognize json) (Payload msg) \<longrightarrow> f_re p = f_re new_Recognize_Payload
      | Speak _ p \<Rightarrow>
          keeps f_sp (into_Speak json) (Payload msg) \<longrightarrow> f_sp p = f_sp new_Speak_Payload
      | _ \<Rightarrow> True)"
proof -
  have ix: "index_map (Header msg) ''namespace'' = ns" "index_map (Header msg) ''name'' = n"
    using assms(3,4) by (simp_all add: index_map_Some)
  from Typed_registered[OF assms(1,2) ix, of json]
  obtain t where t: "Typed json s m = Inr t" "variant_of t = v" "v \<noteq> T_Message"
      "GetMessage t = m"
    and p: "(case t of
        ClearQueue _ p \<Rightarrow> p = fst (into_ClearQueue json (Payload msg) new_ClearQueue_Payload)
      | Exception _ p \<Rightarrow> p = fst (into_Exception json (Payload msg) new_Exception_Payload)
      | ExpectSpeech _ p \<Rightarrow> p = fst (into_ExpectSpeech json (Payload msg) new_ExpectSpeech_Payload)
      | Play _ p \<Rightarrow> p = fst (into_Play json (Payload msg) new_Play_Payload)
      | PlaybackState _ p \<Rightarrow>
          p = fst (into_PlaybackState json (Payload msg) new_PlaybackState_Payload)
      | Recognize _ p \<Rightarrow> p = fst (into_Recognize json (Payload msg) new_Recognize_Payload)
      | Speak _ p \<Rightarrow> p = fst (into_Speak json (Payload msg) new_Speak_Payload)
      | _ \<Rightarrow> True)"
    by blast
  from p have "(case t of
        ClearQueue _ p \<Rightarrow>
          keeps f_cq (into_ClearQueue json) (Payload msg) \<longrightarrow> f_cq p = f_cq new_ClearQueue_Payload
      | Exception _ p \<Rightarrow>
          keeps f_ex (into_Exception json) (Payload msg) \<longrightarrow> f_ex p = f_ex new_Exception_Payload
      | ExpectSpeech _ p \<Rightarrow>
          keeps f_es (into_ExpectSpeech json) (Payload msg)
            \<longrightarrow> f_es p = f_es new_ExpectSpeech_Payload
      | Play _ p \<Rightarrow>
          keeps f_pl (into_Play json) (Payload msg) \<longrightarrow> f_pl p = f_pl new_Play_Payload
      | PlaybackState _ p \<Rightarrow>
          keeps f_ps (into_PlaybackState json) (Payload msg)
            \<longrightarrow> f_ps p = f_ps new_PlaybackState_Payload
      | Recognize _ p \<Rightarrow>
          keeps f_re (into_Recognize json) (Payload msg) \<longrightarrow> f_re p = f_re new_Recognize_Payload
      | Speak _ p \<Rightarrow>
          keeps f_sp (into_Speak json) (Payload msg) \<longrightarrow> f_sp p = f_sp new_Speak_Payload
      | _ \<Rightarrow> True)"
    by (cases t) (simp_all add: keeps_def)
  with t assms(2) show ?thesis by simp
qed

text \<open>
  The instance of the specification: an \<^verbatim>\<open>Exception\<close> whose \<^verbatim>\<open>code\<close> is a number, alone
  and next to a well-formed description. The decoder reports an error, \<open>Typed\<close> returns
  the \<^verbatim>\<open>Exception\<close> all the same, and its \<^verbatim>\<open>Code\<close> is the empty string.
\<close>

theorem Typed_swallows_decode_errors_witness:
  \<open>(\<exists>t p. Typed sample_json
      [\<lparr>Header = [''namespace'' \<mapsto> ''System'', ''name'' \<mapsto> ''Exception''],
        Payload = Some ''{"code": 123}''\<rparr>] (Ref 0) = Inr t
     \<and> t = Exception (Ref 0) p \<and> Code p = '''')
   \<and> snd (into_Exception sample_json (Some ''{"code": 123}'') new_Exception_Payload) \<noteq> None
   \<and> (\<exists>t p. Typed sample_json
      [\<lparr>Header = [''namespace'' \<mapsto> ''System'', ''name'' \<mapsto> ''Exception''],
        Payload = Some ''{"code": 123, "description": "boom"}''\<rparr>] (Ref 0) = Inr t
     \<and> t = Exception (Ref 0) p \<and> Code p = '''')\<close>
proof -
  let ?a = \<open>\<lparr>Header = [''namespace'' \<mapsto> ''System'', ''name'' \<mapsto> ''Exception''],
        Payload = Some ''{"code": 123}''\<rparr>\<close>
  let ?b = \<open>\<lparr>Header = [''namespace'' \<mapsto> ''System'', ''name'' \<mapsto> ''Exception''],
        Payload = Some ''{"code": 123, "description": "boom"}''\<rparr>\<close>
  have ka: "keeps Code (into_Exception sample_json) (Payload ?a)"
    and kb: "keeps Code (into_Exception sample_json) (Payload ?b)"
    by (simp_all add: keeps_def sample_json_def sample_Exception_decoder_def)
  have r: "(''System'', ''Exception'', T_Exception) \<in> set spec_registry"
    by (simp add: spec_registry_def)
  have da: "deref [?a] (Ref 0) = Inr ?a" and db: "deref [?b] (Ref 0) = Inr ?b"
    by (simp_all add: deref_def)
  have e: \<open>snd (into_Exception sample_json (Some ''{"code": 123}'') new_Exception_Payload)
             \<noteq> None\<close>
    by (simp add: sample_json_def sample_Exception_decoder_def)
  have ha: "Header ?a ''namespace'' = Some ''System''" "Header ?a ''name'' = Some ''Exception''"
    and hb: "Header ?b ''namespace'' = Some ''System''" "Header ?b ''name'' = Some ''Exception''"
    by simp_all
  have a: "\<exists>t p. Typed sample_json [?a] (Ref 0) = Inr t \<and> t = Exception (Ref 0) p \<and> Code p = ''''"
    apply (insert Typed_swallows_decode_errors[OF r da ha, where json = sample_json
          and f_ex = Code and f_cq = id and f_es = id and f_pl = id and f_ps = id and f_re = id
          and f_sp = id] ka)
    apply (elim exE conjE)
    subgoal for t by (cases t) (simp_all add: new_Exception_Payload_def)
    done
  have b: "\<exists>t p. Typed sample_json [?b] (Ref 0) = Inr t \<and> t = Exception (Ref 0) p \<and> Code p = ''''"
    apply (insert Typed_swallows_decode_errors[OF r db hb, where json = sample_json
          and f_ex = Code and f_cq = id and f_es = id and f_pl = id and f_ps = id and f_re = id
          and f_sp = id] kb)
    apply (elim exE conjE)
    subgoal for t by (cases t) (simp_all add: new_Exception_Payload_def)
    done
  from a e b show ?thesis by blast
qed

text \<open>
  Claim C10. A registered message whose payload is the nil slice: the decoder is run on
  it like on any other bytes, and with a decoder that writes nothing when it is given the
  nil slice (\<open>rejects_nil\<close>, as \<^verbatim>\<open>json.Unmarshal\<close> does) \<open>Typed\<close> returns the variant of the
  table with its payload struct equal to the zero struct. There is no panic.
\<close>

theorem Typed_nil_payload:
  assumes "(ns, n, v) \<in> set spec_registry" and "deref s m = Inr msg"
    and "Header msg ''namespace'' = Some ns" and "Header msg ''name'' = Some n"
    and "Payload msg = None" and "rejects_nil json"
  shows "\<exists>t. Typed json s m = Inr t \<and> variant_of t = v \<and>
     (case t of
        Message_ptr _ \<Rightarrow> False
      | ClearQueue _ p \<Rightarrow> p = new_ClearQueue_Payload
      | Exception _ p \<Rightarrow> p = new_Exception_Payload
      | ExpectSpeech _ p \<Rightarrow> p = new_ExpectSpeech_Payload
      | ExpectSpeechTimedOut _ p \<Rightarrow> p = ()
      | Play _ p \<Rightarrow> p = new_Play_Payload
      | PlaybackState _ p \<Rightarrow> p = new_PlaybackState_Payload
      | Recognize _ p \<Rightarrow> p = new_Recognize_Payload
      | Speak _ p \<Rightarrow> p = new_Speak_Payload
      | Stop _ p \<Rightarrow> p = ()
      | SynchronizeState _ p \<Rightarrow> p = ())"
proof -
  have ix: "index_map (Header msg) ''namespace'' = ns" "index_map (Header msg) ''name'' = n"
    using assms(3,4) by (simp_all add: index_map_Some)
  from Typed_registered[OF assms(1,2) ix, of json]
  obtain t where t: "Typed json s m = Inr t" "variant_of t = v" "v \<noteq> T_Message"
    and p: "(case t of
        ClearQueue _ p \<Rightarrow> p = fst (into_ClearQueue json (Payload msg) new_ClearQueue_Payload)
      | Exception _ p \<Rightarrow> p = fst (into_Exception json (Payload msg) new_Exception_Payload)
      | ExpectSpeech _ p \<Rightarrow> p = fst (into_ExpectSpeech json (Payload msg) new_ExpectSpeech_Payload)
      | Play _ p \<Rightarrow> p = fst (into_Play json (Payload msg) new_Play_Payload)
      | PlaybackState _ p \<Rightarrow>
          p = fst (into_PlaybackState json (Payload msg) new_PlaybackState_Payload)
      | Recognize _ p \<Rightarrow> p = fst (into_Recognize json (Payload msg) new_Recognize_Payload)
      | Speak _ p \<Rightarrow> p = fst (into_Speak json (Payload msg) new_Speak_Payload)
      | _ \<Rightarrow> True)"
    by blast
  from p t(2,3) assms(5,6) have "(case t of
        Message_ptr _ \<Rightarrow> False
      | ClearQueue _ p \<Rightarrow> p = new_ClearQueue_Payload
      | Exception _ p \<Rightarrow> p = new_Exception_Payload
      | ExpectSpeech _ p \<Rightarrow> p = new_ExpectSpeech_Payload
      | ExpectSpeechTimedOut _ p \<Rightarrow> p = ()
      | Play _ p \<Rightarrow> p = new_Play_Payload
      | PlaybackState _ p \<Rightarrow> p = new_PlaybackState_Payload
      | Recognize _ p \<Rightarrow> p = new_Recognize_Payload
      | Speak _ p \<Rightarrow> p = new_Speak_Payload
      | Stop _ p \<Rightarrow> p = ()
      | SynchronizeState _ p \<Rightarrow> p = ())"
    by (cases t) (auto simp: rejects_nil_def keeps_def)
  with t show ?thesis by blast
qed

theorem Typed_nil_payload_witness:
  "rejects_nil sample_json \<and>
   (\<exists>t p. Typed sample_json
      [\<lparr>Header = [''namespace'' \<mapsto> ''SpeechSynthesizer'', ''name'' \<mapsto> ''Speak''],
        Payload = None\<rparr>] (Ref 0) = Inr t \<and> t = Speak p \<lparr>Format = '''', URL = ''''\<rparr>)"
proof -
  let ?msg = "\<lparr>Header = [''namespace'' \<mapsto> ''SpeechSynthesizer'', ''name'' \<mapsto> ''Speak''],
        Payload = None\<rparr>"
  have k: "rejects_nil sample_json"
    by (simp add: rejects_nil_def keeps_def sample_json_def sample_Exception_decoder_def
        reject_def)
  have r: "(''SpeechSynthesizer'', ''Speak'', T_Speak) \<in> set spec_registry"
    by (simp add: spec_registry_def)
  have d: "deref [?msg] (Ref 0) = Inr ?msg"
    by (simp add: deref_def)
  have h: "Header ?msg ''namespace'' = Some ''SpeechSynthesizer''"
    "Header ?msg ''name'' = Some ''Speak''" "Payload ?msg = None"
    by simp_all
  have "\<exists>t p. Typed sample_json [?msg] (Ref 0) = Inr t
          \<and> t = Speak p \<lparr>Format = '''', URL = ''''\<rparr>"
    apply (insert Typed_nil_payload[OF r d h k])
    apply (elim exE conjE)
    subgoal for t by (cases t) (simp_all add: new_Speak_Payload_def)
    done
  with k show ?thesis by blast
qed

subsection \<open>A variant wraps the message it was made from\<close>

text \<open>
  Claim C9. The variant that \<open>Typed\<close> returns for a registered message holds the very
  pointer \<open>Typed\<close> was given: \<open>GetMessage\<close> returns it, and reading through it gives the
  input message, header and payload. Nothing of the message is copied into the variant.
\<close>

theorem Typed_wraps_input:
  assumes "(ns, n, v) \<in> set spec_registry" and "deref s m = Inr msg"
    and "Header msg ''namespace'' = Some ns" and "Header msg ''name'' = Some n"
  shows "\<exists>t. Typed json s m = Inr t \<and> variant_of t = v \<and> GetMessage t = m \<and>
     deref s (GetMessage t) = Inr msg"
proof -
  have ix: "index_map (Header msg) ''namespace'' = ns" "index_map (Header msg) ''name'' = n"
    using assms(3,4) by (simp_all add: index_map_Some)
  from Typed_registered[OF assms(1,2) ix, of json] assms(2) show ?thesis by auto
qed

theorem Typed_wraps_input_witness:
  "\<exists>t. Typed sample_json
      [\<lparr>Header = [''namespace'' \<mapsto> ''Alerts'', ''name'' \<mapsto> ''SetAlert''], Payload = None\<rparr>,
       \<lparr>Header = [''namespace'' \<mapsto> ''AudioPlayer'', ''name'' \<mapsto> ''Stop''],
        Payload = Some ''{}''\<rparr>] (Ref 1) = Inr t
     \<and> variant_of t = T_Stop \<and> GetMessage t = Ref 1"
proof -
  let ?a = "\<lparr>Header = [''namespace'' \<mapsto> ''Alerts'', ''name'' \<mapsto> ''SetAlert''],
              Payload = None :: RawMessage\<rparr>"
  let ?b = "\<lparr>Header = [''namespace'' \<mapsto> ''AudioPlayer'', ''name'' \<mapsto> ''Stop''],
              Payload = Some ''{}''\<rparr>"
  have r: "(''AudioPlayer'', ''Stop'', T_Stop) \<in> set spec_registry"
    by (simp add: spec_registry_def)
  have d: "deref [?a, ?b] (Ref 1) = Inr ?b"
    by (simp add: deref_def)
  have h: "Header ?b ''namespace'' = Some ''AudioPlayer''" "Header ?b ''name'' = Some ''Stop''"
    by simp_all
  from Typed_wraps_input[OF r d h, of sample_json] show ?thesis by blast
qed

subsection \<open>Raw messages\<close>

text \<open>
  Claim C8. The discriminator of an allocated message is its namespace, a dot and its
  name. A key the header lacks, like a key mapped to the empty string, gives an empty
  segment; the result is a string in every case, never a panic.
\<close>

theorem String_discriminator:
  assumes "deref s m = Inr msg"
  shows "(\<forall>ns n. Header msg ''namespace'' = Some ns \<and> Header msg ''name'' = Some n
            \<longrightarrow> String s m = Inr (ns @ ''.'' @ n))
     \<and> (\<forall>n. Header msg ''namespace'' = None \<and> Header msg ''name'' = Some n
            \<longrightarrow> String s m = Inr (''.'' @ n))
     \<and> (\<forall>ns. Header msg ''namespace'' = Some ns \<and> Header msg ''name'' = None
            \<longrightarrow> String s m = Inr (ns @ ''.''))
     \<and> (Header msg ''namespace'' = None \<and> Header msg ''name'' = None
            \<longrightarrow> String s m = Inr ''.'')"
  using assms by (simp add: String_def index_map_def)

theorem String_discriminator_witness:
  "String [\<lparr>Header = [''namespace'' \<mapsto> ''System'', ''name'' \<mapsto> ''Exception''],
            Payload = None\<rparr>] (Ref 0) = Inr ''System.Exception'' \<and>
   String [\<lparr>Header = [''namespace'' \<mapsto> '''', ''name'' \<mapsto> ''''], Payload = None\<rparr>] (Ref 0)
     = Inr ''.'' \<and>
   String [\<lparr>Header = [''name'' \<mapsto> ''Play''], Payload = None\<rparr>] (Ref 0) = Inr ''.Play'' \<and>
   String [\<lparr>Header = Map.empty, Payload = None\<rparr>] (Ref 0) = Inr ''.''"
proof -
  let ?a = "\<lparr>Header = [''namespace'' \<mapsto> ''System'', ''name'' \<mapsto> ''Exception''],
              Payload = None :: RawMessage\<rparr>"
  let ?b = "\<lparr>Header = [''namespace'' \<mapsto> '''', ''name'' \<mapsto> ''''], Payload = None :: RawMessage\<rparr>"
  let ?c = "\<lparr>Header = [''name'' \<mapsto> ''Play''], Payload = None :: RawMessage\<rparr>"
  let ?d = "\<lparr>Header = Map.empty :: string \<rightharpoonup> string, Payload = None :: RawMessage\<rparr>"
  have d: "deref [?a] (Ref 0) = Inr ?a" "deref [?b] (Ref 0) = Inr ?b"
    "deref [?c] (Ref 0) = Inr ?c" "deref [?d] (Ref 0) = Inr ?d"
    by (simp_all add: deref_def)
  from String_discriminator[OF d(1)] String_discriminator[OF d(2)]
       String_discriminator[OF d(3)] String_discriminator[OF d(4)]
  show ?thesis by simp
qed

text \<open>
  Claim C6. \<open>NewEvent\<close> allocates one message. Its header maps namespace, name and
  messageId to the arguments, holds the key dialogRequestId exactly when that argument is
  not the empty string, then mapped to it, and holds no other key. The payload is nil.
\<close>

theorem NewEvent_header:
  "\<exists>msg. NewEvent s namespace name messageId dialogRequestId = (s @ [msg], Ref (length s))
      \<and> deref (s @ [msg]) (Ref (length s)) = Inr msg
      \<and> Header msg ''namespace'' = Some namespace
      \<and> Header msg ''name'' = Some name
      \<and> Header msg ''messageId'' = Some messageId
      \<and> (''dialogRequestId'' \<in> dom (Header msg) \<longleftrightarrow> dialogRequestId \<noteq> [])
      \<and> (dialogRequestId \<noteq> [] \<longrightarrow> Header msg ''dialogRequestId'' = Some dialogRequestId)
      \<and> dom (Header msg) \<subseteq> {''namespace'', ''name'', ''messageId'', ''dialogRequestId''}
      \<and> Payload msg = None"
  by (auto simp add: NewEvent_def alloc_def deref_def Let_def)

theorem NewEvent_header_witness:
  "(\<exists>msg. NewEvent [] ''System'' ''SynchronizeState'' ''m1'' '''' = ([msg], Ref 0)
      \<and> Header msg ''namespace'' = Some ''System''
      \<and> Header msg ''name'' = Some ''SynchronizeState''
      \<and> Header msg ''messageId'' = Some ''m1''
      \<and> Header msg ''dialogRequestId'' = None) \<and>
   (\<exists>msg. NewEvent [] ''SpeechRecognizer'' ''Recognize'' ''m2'' ''d9'' = ([msg], Ref 0)
      \<and> Header msg ''dialogRequestId'' = Some ''d9'')"
proof -
  have a: "\<exists>msg. NewEvent [] ''System'' ''SynchronizeState'' ''m1'' '''' = ([msg], Ref 0)
      \<and> Header msg ''namespace'' = Some ''System''
      \<and> Header msg ''name'' = Some ''SynchronizeState''
      \<and> Header msg ''messageId'' = Some ''m1''
      \<and> Header msg ''dialogRequestId'' = None"
    apply (insert NewEvent_header[of "[]" "''System''" "''SynchronizeState''" "''m1''" "''''"])
    apply (elim exE conjE)
    subgoal for msg by (rule exI[of _ msg]) (simp add: domIff)
    done
  have b: "\<exists>msg. NewEvent [] ''SpeechRecognizer'' ''Recognize'' ''m2'' ''d9'' = ([msg], Ref 0)
      \<and> Header msg ''dialogRequestId'' = Some ''d9''"
    apply (insert NewEvent_header[of "[]" "''SpeechRecognizer''" "''Recognize''" "''m2''" "''d9''"])
    apply (elim exE conjE)
    subgoal for msg by (rule exI[of _ msg]) simp
    done
  from a b show ?thesis by blast
qed

subsection \<open>Accessors\<close>

text \<open>
  Claim C7. \<open>ContentId\<close> returns what follows \<^verbatim>\<open>cid:\<close> when the URL starts with these four
  characters, compared as they are, and the empty string for every other URL. The slice
  never panics.
\<close>

theorem ContentId_cid_prefix:
  "(\<forall>rest. URL p = ''cid:'' @ rest \<longrightarrow> ContentId p = Inr rest)
   \<and> ((\<forall>rest. URL p \<noteq> ''cid:'' @ rest) \<longrightarrow> ContentId p = Inr [])"
proof (intro conjI allI impI)
  fix rest
  assume "URL p = ''cid:'' @ rest"
  then show "ContentId p = Inr rest"
    by (simp add: ContentId_def HasPrefix_def slice_from_def)
next
  assume h: "\<forall>rest. URL p \<noteq> ''cid:'' @ rest"
  have "\<not> HasPrefix (URL p) ''cid:''"
  proof
    assume "HasPrefix (URL p) ''cid:''"
    then have "take (length ''cid:'') (URL p) = ''cid:''"
      unfolding HasPrefix_def by blast
    then have "URL p = ''cid:'' @ drop (length ''cid:'') (URL p)"
      by (metis append_take_drop_id)
    with h show False by blast
  qed
  then show "ContentId p = Inr []"
    by (simp add: ContentId_def)
qed

theorem ContentId_cid_prefix_witness:
  "ContentId \<lparr>Format = '''', URL = ''cid:abc123''\<rparr> = Inr ''abc123''
   \<and> ContentId \<lparr>Format = '''', URL = ''https://x/y''\<rparr> = Inr ''''
   \<and> ContentId \<lparr>Format = '''', URL = ''CID:abc123''\<rparr> = Inr ''''"
  using ContentId_cid_prefix[of "\<lparr>Format = '''', URL = ''cid:abc123''\<rparr>"]
    ContentId_cid_prefix[of "\<lparr>Format = '''', URL = ''https://x/y''\<rparr>"]
    ContentId_cid_prefix[of "\<lparr>Format = '''', URL = ''CID:abc123''\<rparr>"]
  by simp

text \<open>
  Claim C4, as the specification states it, fails: a timeout of one millisecond and a half
  is a \<^verbatim>\<open>float64\<close> and, as 1500000 nanoseconds, a duration, but \<open>Timeout\<close> returns one
  millisecond.
\<close>

theorem Timeout_exact_counterexample:
  "Timeout \<lparr>TimeoutInMilliseconds = 3 / 2\<rparr> = Some 1000000
   \<and> \<not> spec_exact_milliseconds (3 / 2) 1000000
   \<and> spec_exact_milliseconds (3 / 2) 1500000"
  by code_simp

text \<open>
  Claim C4, amended. \<open>Timeout\<close> discards the fraction of the number of milliseconds and
  returns that whole number of milliseconds, as long as it is a duration that \<^verbatim>\<open>int64\<close>
  nanoseconds can hold. For a whole number of milliseconds the result is therefore exact;
  5000 gives five seconds.
\<close>

theorem Timeout_truncates:
  assumes "- (2 ^ 63) \<le> trunc_toward_zero f * 1000000"
    and "trunc_toward_zero f * 1000000 < 2 ^ 63"
  shows "Timeout \<lparr>TimeoutInMilliseconds = f\<rparr> = Some (trunc_toward_zero f * Millisecond)
     \<and> (\<forall>k. f = of_int k \<longrightarrow> Timeout \<lparr>TimeoutInMilliseconds = f\<rparr> = Some (k * Millisecond))"
proof -
  have t: "- (2 ^ 63) \<le> trunc_toward_zero f" "trunc_toward_zero f < 2 ^ 63"
    using assms by linarith+
  have "Timeout \<lparr>TimeoutInMilliseconds = f\<rparr> = Some (trunc_toward_zero f * Millisecond)"
    using assms t by (simp add: Timeout_def Duration_of_float64_def Millisecond_def wrap64_id)
  moreover have "trunc_toward_zero (of_int k) = k" for k
    by (simp add: trunc_toward_zero_def)
  ultimately show ?thesis by auto
qed

theorem Timeout_truncates_witness:
  "Timeout \<lparr>TimeoutInMilliseconds = 5000\<rparr> = Some (5 * Second)
   \<and> Timeout \<lparr>TimeoutInMilliseconds = 5 / 2\<rparr> = Some (2 * Millisecond)
   \<and> Timeout \<lparr>TimeoutInMilliseconds = - (5 / 2)\<rparr> = Some (- 2 * Millisecond)"
proof -
  have a: "trunc_toward_zero 5000 = 5000" "trunc_toward_zero (5 / 2) = 2"
    "trunc_toward_zero (- (5 / 2)) = - 2"
    by code_simp+
  have "Timeout \<lparr>TimeoutInMilliseconds = 5000\<rparr> = Some (5000 * Millisecond)"
    using Timeout_truncates[of 5000] by (simp add: a)
  moreover have "Timeout \<lparr>TimeoutInMilliseconds = 5 / 2\<rparr> = Some (2 * Millisecond)"
    using Timeout_truncates[of "5 / 2"] unfolding a by simp
  moreover have "Timeout \<lparr>TimeoutInMilliseconds = - (5 / 2)\<rparr> = Some (- 2 * Millisecond)"
    using Timeout_truncates[of "- (5 / 2)"] unfolding a by simp
  ultimately show ?thesis
    by (simp add: Millisecond_def Second_def)
qed

subsection \<open>Rounding to binary64\<close>

text \<open>
  Facts about the floating-point model: the position of the leading bit, the relative
  error of one rounding (at most \<open>1 / 2 ^ 53\<close> of the value), integers below \<open>2 ^ 53\<close> are
  not rounded, and rounding commutes with negation.
\<close>

lemma pow2_powi: "pow2 k = 2 powi k"
  by (simp add: pow2_def power_int_def power_one_over)

lemma pow2_pos: "0 < pow2 k"
  by (simp add: pow2_powi)

lemma pow2_add: "pow2 (a + b) = pow2 a * pow2 b"
  by (simp add: pow2_powi power_int_add)

lemma pow2_nat: "0 \<le> k \<Longrightarrow> pow2 k = 2 ^ nat k"
  by (simp add: pow2_def)

lemma pow2_mono: "a \<le> b \<Longrightarrow> pow2 a \<le> pow2 b"
  by (simp add: pow2_powi power_int_increasing)

lemma bitlen_rat_bounds:
  assumes "0 < p"
  shows "pow2 (bitlen p - 1) \<le> of_int p" "of_int p < pow2 (bitlen p)"
proof -
  from assms have b: "1 \<le> bitlen p"
    using bitlen_bounds[of p] bitlen_nonneg[of p]
    by (metis bitlen_eq_zero_iff int_one_le_iff_zero_less leD le_less)
  from bitlen_bounds[OF assms] have "2 ^ nat (bitlen p - 1) \<le> p" "p < 2 ^ nat (bitlen p)"
    by auto
  then have "(of_int (2 ^ nat (bitlen p - 1)) :: rat) \<le> of_int p"
    "(of_int p :: rat) < of_int (2 ^ nat (bitlen p))"
    by (simp_all only: of_int_le_iff of_int_less_iff)
  then show "pow2 (bitlen p - 1) \<le> of_int p" "of_int p < pow2 (bitlen p)"
    using b by (simp_all add: pow2_nat)
qed

lemma ilog2_bounds:
  assumes "0 < x"
  shows "pow2 (ilog2 x) \<le> x" and "x < pow2 (ilog2 x + 1)"
proof -
  obtain p q where pq: "quotient_of x = (p, q)" by (cases "quotient_of x")
  then have q: "0 < q" and x: "x = of_int p / of_int q"
    by (simp_all add: quotient_of_denom_pos quotient_of_div)
  with assms have p: "0 < p"
    by (simp add: zero_less_divide_iff)
  define k where "k = bitlen p - bitlen q"
  have il: "ilog2 x = (if pow2 k \<le> x then k else k - 1)"
    by (simp add: ilog2_def pq k_def Let_def)
  note bp = bitlen_rat_bounds[OF p] and bq = bitlen_rat_bounds[OF q]
  have qpos: "(0::rat) < of_int q" using q by simp
  have up: "x < pow2 (k + 1)"
  proof -
    have "of_int p < pow2 (k + 1) * pow2 (bitlen q - 1)"
      using bp(2) by (simp add: pow2_add [symmetric] k_def)
    also have "\<dots> \<le> pow2 (k + 1) * of_int q"
      using bq(1) pow2_pos[of "k + 1"] by simp
    finally show ?thesis
      using qpos by (simp add: x pos_divide_less_eq)
  qed
  have lo: "pow2 (k - 1) \<le> x"
  proof -
    have "pow2 (k - 1) * of_int q \<le> pow2 (k - 1) * pow2 (bitlen q)"
      using bq(2) pow2_pos[of "k - 1"] by simp
    also have "\<dots> = pow2 (bitlen p - 1)"
      by (simp add: pow2_add [symmetric] k_def)
    also have "\<dots> \<le> of_int p" by (rule bp(1))
    finally show ?thesis
      using qpos by (simp add: x pos_le_divide_eq)
  qed
  show "pow2 (ilog2 x) \<le> x"
    using lo by (simp add: il)
  show "x < pow2 (ilog2 x + 1)"
    using up by (auto simp add: il not_le)
qed

lemma round_half_even_error: "\<bar>of_int (round_half_even y) - y\<bar> \<le> 1 / 2"
proof -
  have "of_int \<lfloor>y\<rfloor> \<le> y" "y < of_int \<lfloor>y\<rfloor> + 1" by linarith+
  then show ?thesis
    by (auto simp add: round_half_even_def Let_def)
qed

lemma round_half_even_of_int: "round_half_even (of_int n) = n"
  by (simp add: round_half_even_def)


lemma pow2_between: "pow2 a \<le> x \<Longrightarrow> x < pow2 b \<Longrightarrow> a < b"
  using pow2_mono[of b a] by (cases "a < b") auto

lemma round_float64_minus: "round_float64 (- x) = - round_float64 x"
  by (simp add: round_float64_def sgn_minus Let_def)

lemma round_float64_error:
  assumes "pow2 (- 1022) \<le> \<bar>x\<bar>"
  shows "\<bar>round_float64 x - x\<bar> \<le> \<bar>x\<bar> / 2 ^ 53"
proof -
  define a where "a = \<bar>x\<bar>"
  have apos: "0 < a"
    using assms pow2_pos[of "- 1022"] by (simp add: a_def)
  then have x0: "x \<noteq> 0" by (auto simp: a_def)
  note il = ilog2_bounds[OF apos]
  have "- 1022 < ilog2 a + 1"
    using assms il(2) by (intro pow2_between[of _ a]) (simp_all add: a_def)
  then have mx: "max (ilog2 a) (- 1022) = ilog2 a" by simp
  define e where "e = ilog2 a - 52"
  define y where "y = a / pow2 e"
  define s where "s = sgn x"
  have s1: "\<bar>s\<bar> = 1" using x0 by (simp add: s_def abs_sgn_eq)
  have fl: "round_float64 x = s * of_int (round_half_even y) * pow2 e"
    using x0 by (simp add: round_float64_def Let_def mx e_def y_def s_def a_def [symmetric])
  have xe: "s * y * pow2 e = x"
    using pow2_pos[of e] by (simp add: y_def a_def s_def sgn_mult_abs)
  have "round_float64 x - x = s * of_int (round_half_even y) * pow2 e - s * y * pow2 e"
    by (simp only: fl xe)
  also have "\<dots> = s * (of_int (round_half_even y) - y) * pow2 e"
    by (simp add: algebra_simps)
  finally have "\<bar>round_float64 x - x\<bar> = \<bar>of_int (round_half_even y) - y\<bar> * pow2 e"
    using s1 pow2_pos[of e] by (simp add: abs_mult)
  also have "\<dots> \<le> (1 / 2) * pow2 e"
    using round_half_even_error[of y] pow2_pos[of e] by (simp add: mult_right_mono)
  also have "pow2 e = pow2 (ilog2 a) * pow2 (- 52)"
    by (simp add: e_def pow2_add [symmetric])
  also have "(1 / 2) * (pow2 (ilog2 a) * pow2 (- 52)) \<le> (1 / 2) * (a * pow2 (- 52))"
    using il(1) pow2_pos[of "- 52"] by (simp add: mult_right_mono)
  also have "\<dots> = a / 2 ^ 53"
    by (simp add: pow2_def)
  finally show ?thesis by (simp add: a_def)
qed

lemma round_float64_of_int:
  assumes "\<bar>k\<bar> < 2 ^ 53"
  shows "round_float64 (of_int k) = of_int k"
proof (cases "k = 0")
  case True
  then show ?thesis by (simp add: round_float64_def)
next
  case False
  define a :: rat where "a = \<bar>of_int k\<bar>"
  have a1: "1 \<le> a" using False by (simp add: a_def flip: of_int_abs)
  then have apos: "0 < a" by simp
  note il = ilog2_bounds[OF apos]
  have "a < 2 ^ 53"
    using assms unfolding a_def of_int_abs [symmetric] by (metis of_int_less_iff of_int_numeral of_int_power)
  then have "a < pow2 53" by (simp add: pow2_def)
  with il(1) have hi: "ilog2 a < 53" by (rule pow2_between)
  have "pow2 0 \<le> a" using a1 by (simp add: pow2_def)
  from this il(2) have lo: "0 < ilog2 a + 1" by (rule pow2_between)
  then have mx: "max (ilog2 a) (- 1022) = ilog2 a" by simp
  define e where "e = ilog2 a - 52"
  have e: "e \<le> 0" using hi by (simp add: e_def)
  have "a / pow2 e = a * pow2 (- e)"
    by (simp add: pow2_powi power_int_minus field_simps)
  also have "\<dots> = of_int (\<bar>k\<bar> * 2 ^ nat (- e))"
    using e by (simp add: pow2_nat a_def)
  finally have y: "a / pow2 e = of_int (\<bar>k\<bar> * 2 ^ nat (- e))" .
  have "round_float64 (of_int k) = sgn (of_int k) * of_int (round_half_even (a / pow2 e)) * pow2 e"
    using False by (simp add: round_float64_def Let_def mx e_def a_def [symmetric])
  also have "\<dots> = sgn (of_int k) * (a / pow2 e) * pow2 e"
    unfolding y round_half_even_of_int ..
  also have "\<dots> = sgn (of_int k) * a"
    using pow2_pos[of e] by simp
  also have "\<dots> = of_int k"
    by (simp add: a_def sgn_mult_abs)
  finally show ?thesis .
qed


lemma round_float64_error_nonneg:
  assumes "x = 0 \<or> 1 / 1000000 \<le> x"
  shows "\<bar>round_float64 x - x\<bar> \<le> x / 9007199254740992"
proof (cases "x = 0")
  case True
  then show ?thesis by (simp add: round_float64_def)
next
  case False
  with assms have x: "1 / 1000000 \<le> x" by simp
  have "pow2 (- 1022) \<le> 1 / 1000000" by (simp add: pow2_def)
  with x have "pow2 (- 1022) \<le> \<bar>x\<bar>" by linarith
  from round_float64_error[OF this] x show ?thesis by simp
qed

lemma Seconds_whole_ms:
  assumes "0 \<le> n" and "n < 2 ^ 44"
  shows "Seconds (n * 1000000)
    = round_float64 (of_int (n div 1000) + round_float64 (of_int (n mod 1000) / 1000))"
proof -
  have d: "(n * 1000000) sdiv Second = n div 1000"
  proof -
    have "(n * 1000000) div (1000 * 1000000) = n div 1000"
      by (rule div_mult_mult2) simp
    then show ?thesis
      using assms(1) by (cases "n = 0") (simp_all add: signed_divide_int_def Second_def sgn_mult)
  qed
  have m: "(n * 1000000) smod Second = (n mod 1000) * 1000000"
  proof -
    have "(n * 1000000) mod (1000 * 1000000) = (n mod 1000) * 1000000"
      by (rule mod_mult_mult2)
    then show ?thesis
      using assms(1) by (cases "n = 0") (simp_all add: signed_modulo_int_def Second_def sgn_mult)
  qed
  have "\<bar>n div 1000\<bar> < 2 ^ 53"
    using assms by simp
  then have s: "float64_of_int64 (n div 1000) = of_int (n div 1000)"
    unfolding float64_of_int64_def by (rule round_float64_of_int)
  have "\<bar>(n mod 1000) * 1000000\<bar> < 2 ^ 53"
    using pos_mod_bound[of 1000 n] pos_mod_sign[of 1000 n] by simp
  then have r: "float64_of_int64 ((n mod 1000) * 1000000) = of_int ((n mod 1000) * 1000000)"
    unfolding float64_of_int64_def by (rule round_float64_of_int)
  show ?thesis
    by (simp add: Seconds_def d m s r float64_add_def float64_div_def Let_def)
qed

text \<open>
  For a whole number \<open>n\<close> of milliseconds the \<^verbatim>\<open>float64\<close> that \<open>NewPlaybackState\<close> stores
  is within one of \<open>n\<close>: the three roundings together lose far less.
\<close>

lemma round_float64_abs_error:
  assumes "x = 0 \<or> 1 / 1000000 \<le> x" and "x \<le> M" and "M / 9007199254740992 \<le> e"
  shows "\<bar>round_float64 x - x\<bar> \<le> e"
proof -
  have "\<bar>round_float64 x - x\<bar> \<le> x / 9007199254740992"
    by (rule round_float64_error_nonneg[OF assms(1)])
  also have "\<dots> \<le> M / 9007199254740992"
    using assms(2) by (simp add: divide_right_mono)
  also note assms(3)
  finally show ?thesis .
qed

lemma whole_ms_float_bounds:
  assumes "1 \<le> n" and "n < 2 ^ 44"
  defines "c \<equiv> float64_mul (Seconds (n * 1000000)) 1000"
  shows "of_int n - 1 < c" and "c < of_int n + 1"
proof -
  define S :: rat where "S = of_int (n div 1000)"
  define r :: rat where "r = of_int (n mod 1000) / 1000"
  define a where "a = round_float64 r"
  define b where "b = round_float64 (S + a)"
  define N :: rat where "N = of_int n"
  have c: "c = round_float64 (b * 1000)"
    using assms(1,2) by (simp add: c_def float64_mul_def Seconds_whole_ms S_def r_def a_def b_def)
  have S0: "0 \<le> S" using assms(1) by (simp add: S_def pos_imp_zdiv_nonneg_iff)
  have r0: "0 \<le> r" by (simp add: r_def)
  have "n mod 1000 < 1000" by simp
  then have "(of_int (n mod 1000) :: rat) < 1000" by (metis of_int_less_iff of_int_numeral)
  then have r1: "r < 1" by (simp add: r_def)
  have n: "N = 1000 * S + 1000 * r"
  proof -
    have "(of_int n :: rat) = of_int (1000 * (n div 1000) + n mod 1000)"
      by (simp only: mult_div_mod_eq)
    also have "\<dots> = 1000 * of_int (n div 1000) + of_int (n mod 1000)"
      by (simp only: of_int_add of_int_mult of_int_numeral)
    finally show ?thesis by (simp add: S_def r_def N_def)
  qed
  have "n < 17592186044416" using assms(2) by simp
  then have nb: "N < 17592186044416"
    unfolding N_def by (metis of_int_less_iff of_int_numeral)
  have n1: "1 \<le> N" using assms(1) by (simp add: N_def)
  have rz: "r = 0 \<or> 1 / 1000 \<le> r"
  proof (cases "n mod 1000 = 0")
    case True then show ?thesis by (simp add: r_def)
  next
    case False
    then have "1 \<le> n mod 1000" using pos_mod_sign[of 1000 n] by linarith
    then have "(1 :: rat) \<le> of_int (n mod 1000)" by (metis of_int_1_le_iff)
    then show ?thesis by (simp add: r_def)
  qed
  then have "r = 0 \<or> 1 / 1000000 \<le> r" by linarith
  from round_float64_abs_error[OF this, of 1 "1 / 1000000"] r1
  have ea: "\<bar>a - r\<bar> \<le> 1 / 1000000" by (simp add: a_def)
  have Sz: "S = 0 \<or> 1 \<le> S"
  proof (cases "n div 1000 = 0")
    case True then show ?thesis by (simp add: S_def)
  next
    case False
    moreover have "0 \<le> n div 1000" using assms(1) by (simp add: pos_imp_zdiv_nonneg_iff)
    ultimately have "1 \<le> n div 1000" by linarith
    then have "(1 :: rat) \<le> of_int (n div 1000)" by (metis of_int_1_le_iff)
    then show ?thesis by (simp add: S_def)
  qed
  have sa: "1 / 2000 \<le> S + a"
  proof (cases "S = 0")
    case True
    with n n1 have "1 / 1000 \<le> r" by linarith
    with ea True show ?thesis by linarith
  next
    case False
    with Sz ea r0 show ?thesis by linarith
  qed
  then have sa': "S + a = 0 \<or> 1 / 1000000 \<le> S + a" by linarith
  have "S + a \<le> 34359738368"
    using nb n r0 r1 S0 ea by linarith
  from round_float64_abs_error[OF sa' this, of "1 / 100000"]
  have eb: "\<bar>b - (S + a)\<bar> \<le> 1 / 100000" by (simp add: b_def)
  have "1 / 4000 \<le> b"
    using sa eb by linarith
  then have b': "b * 1000 = 0 \<or> 1 / 1000000 \<le> b * 1000" by linarith
  have "b * 1000 \<le> 35184372088832"
    using nb n r0 r1 S0 ea eb by linarith
  from round_float64_abs_error[OF b' this, of "1 / 100"]
  have ec: "\<bar>c - b * 1000\<bar> \<le> 1 / 100" by (simp add: c)
  show "of_int n - 1 < c" "c < of_int n + 1"
    using ea eb ec n unfolding N_def [symmetric] by linarith+
qed

lemma NewPlaybackState_offset:
  "OffsetInMilliseconds (snd (snd (NewPlaybackState s token d activity)))
     = float64_mul (Seconds d) 1000"
  by (simp add: NewPlaybackState_def NewContext_def alloc_def new_PlaybackState_Payload_def)

lemma Seconds_minus: "Seconds (- d) = - Seconds d"
proof -
  define A where "A = round_float64 (of_int (d sdiv Second))"
  define C where "C = round_float64 (round_float64 (of_int (d smod Second)) / 1000000000)"
  have h: "(- d) sdiv Second = - (d sdiv Second)" "(- d) smod Second = - (d smod Second)"
    by (simp_all add: signed_divide_int_def signed_modulo_int_def sgn_minus)
  have "Seconds (- d) = round_float64 (- (A + C))"
    by (simp add: Seconds_def Let_def float64_add_def float64_div_def float64_of_int64_def h
        round_float64_minus A_def C_def)
  also have "\<dots> = - round_float64 (A + C)"
    by (rule round_float64_minus)
  also have "\<dots> = - Seconds d"
    by (simp add: Seconds_def Let_def float64_add_def float64_div_def float64_of_int64_def
        A_def C_def)
  finally show ?thesis .
qed

lemma float64_mul_minus: "float64_mul (- a) b = - float64_mul a b"
  by (simp add: float64_mul_def round_float64_minus)

lemma trunc_toward_zero_minus: "trunc_toward_zero (- f) = - trunc_toward_zero f"
  by (auto simp add: trunc_toward_zero_def ceiling_minus floor_minus)

lemma Offset_of_trunc:
  assumes "trunc_toward_zero (OffsetInMilliseconds p) = t"
    and "- (2 ^ 63) \<le> t * 1000000" and "t * 1000000 < 2 ^ 63"
  shows "Offset p = Some (t * 1000000)"
proof -
  have "- (2 ^ 63) \<le> t" "t < 2 ^ 63" using assms(2,3) by linarith+
  then show ?thesis
    using assms by (simp add: Offset_def Duration_of_float64_def Millisecond_def wrap64_id)
qed

lemma roundtrip_whole_ms_nonneg:
  assumes "0 \<le> n" and "n * 1000000 < 2 ^ 63"
  shows "\<exists>k. trunc_toward_zero (float64_mul (Seconds (n * 1000000)) 1000) = k
            \<and> (k = n \<or> 1 \<le> n \<and> k = n - 1)"
proof (cases "n = 0")
  case True
  have "float64_mul (Seconds 0) 1000 = 0" by code_simp
  then show ?thesis using True by (simp add: trunc_toward_zero_def)
next
  case False
  with assms(1) have n1: "1 \<le> n" by simp
  have "n < 17592186044416" using assms(2) by simp
  then have n44: "n < 2 ^ 44" by simp
  define c where "c = float64_mul (Seconds (n * 1000000)) 1000"
  note b = whole_ms_float_bounds[OF n1 n44, folded c_def]
  have "(1 :: rat) \<le> of_int n" using n1 by simp
  with b(1) have c0: "0 \<le> c" by linarith
  have "of_int (n - 1) \<le> c" using b(1) by simp
  then have lo: "n - 1 \<le> \<lfloor>c\<rfloor>" by (simp only: le_floor_iff)
  have "c < of_int (n + 1)" using b(2) by simp
  then have hi: "\<lfloor>c\<rfloor> < n + 1" by (simp only: floor_less_iff)
  have "trunc_toward_zero c = \<lfloor>c\<rfloor>" using c0 by (simp add: trunc_toward_zero_def)
  with lo hi n1 show ?thesis unfolding c_def by (intro exI[of _ "\<lfloor>float64_mul (Seconds (n * 1000000)) 1000\<rfloor>"]) linarith
qed

subsection \<open>The round trip of a playback offset\<close>

text \<open>
  Claim C5. The specification asks that an offset which is a whole number of
  milliseconds comes back from \<open>NewPlaybackState\<close> followed by \<open>Offset\<close> as it went in.
  At 1500 milliseconds, the specification's example, it does. At 1001 milliseconds it
  does not: one second and a thousandth is not a binary fraction, its product with 1000
  is the \<^verbatim>\<open>float64\<close> just below 1001, and \<open>Offset\<close> discards the fraction instead of
  rounding, so 1000 milliseconds come back.
\<close>

theorem Offset_roundtrip_1001ms:
  "Offset (snd (snd (NewPlaybackState [] ''tok'' 1500000000 (0 :: nat)))) = Some 1500000000
   \<and> Offset (snd (snd (NewPlaybackState [] ''tok'' 1001000000 (0 :: nat)))) = Some 1000000000
   \<and> (1001000000 :: int) mod 1000000 = 0"
  by (simp add: NewPlaybackState_def NewContext_def alloc_def new_PlaybackState_Payload_def)
     code_simp

text \<open>
  The extent of the loss. Whatever whole number of milliseconds goes in, \<open>Offset\<close> is
  defined and returns either that duration or the one a millisecond nearer to zero.
\<close>

lemma Offset_within_one_millisecond:
  "Offset (snd (snd (NewPlaybackState s token 1500000000 activity))) = Some 1500000000
   \<and> (\<forall>d. - (2 ^ 63) \<le> d \<and> d < 2 ^ 63 \<and> d mod 1000000 = 0 \<longrightarrow>
         (\<exists>r. Offset (snd (snd (NewPlaybackState s token d activity))) = Some r
              \<and> (r = d \<or> r = d - sgn d * Millisecond)))"
proof (intro conjI allI impI)
  have "trunc_toward_zero (float64_mul (Seconds 1500000000) 1000) = 1500"
    by code_simp
  then have "trunc_toward_zero
      (OffsetInMilliseconds (snd (snd (NewPlaybackState s token 1500000000 activity)))) = 1500"
    by (simp only: NewPlaybackState_offset)
  from Offset_of_trunc[OF this]
  show "Offset (snd (snd (NewPlaybackState s token 1500000000 activity))) = Some 1500000000"
    by simp
next
  fix d :: int
  assume a: "- (2 ^ 63) \<le> d \<and> d < 2 ^ 63 \<and> d mod 1000000 = 0"
  let ?p = "snd (snd (NewPlaybackState s token d activity))"
  show "\<exists>r. Offset ?p = Some r \<and> (r = d \<or> r = d - sgn d * Millisecond)"
  proof (cases "0 \<le> d")
    case True
    define n where "n = d div 1000000"
    have "n * 1000000 + d mod 1000000 = d"
      unfolding n_def by (rule div_mult_mod_eq)
    with a have d: "d = n * 1000000" by simp
    have n0: "0 \<le> n" using True by (simp add: n_def pos_imp_zdiv_nonneg_iff)
    from roundtrip_whole_ms_nonneg[OF n0] a d
    obtain k where k: "trunc_toward_zero (float64_mul (Seconds d) 1000) = k"
      and kn: "k = n \<or> 1 \<le> n \<and> k = n - 1"
      by auto
    have t: "trunc_toward_zero (OffsetInMilliseconds ?p) = k"
      using k by (simp only: NewPlaybackState_offset)
    have "0 \<le> k" "k \<le> n" using kn n0 by auto
    then have "- (2 ^ 63) \<le> k * 1000000" "k * 1000000 < 2 ^ 63"
      using a d by simp_all
    from Offset_of_trunc[OF t this] have "Offset ?p = Some (k * 1000000)" .
    moreover have "k * 1000000 = d \<or> k * 1000000 = d - sgn d * Millisecond"
      using kn d by (auto simp add: Millisecond_def algebra_simps)
    ultimately show ?thesis by blast
  next
    case False
    define n where "n = (- d) div 1000000"
    have m: "(- d) mod 1000000 = 0" using a by (simp add: zmod_zminus1_eq_if)
    have "n * 1000000 + (- d) mod 1000000 = - d"
      unfolding n_def by (rule div_mult_mod_eq)
    with m have d: "- d = n * 1000000" by simp
    have n1: "1 \<le> n" using False d by linarith
    then have n0: "0 \<le> n" by simp
    have "n * 1000000 \<noteq> 2 ^ 63"
    proof
      assume e: "n * 1000000 = 2 ^ 63"
      have "(n * 1000000) mod 1000000 = 0" by (rule mod_mult_self2_is_0)
      then have "(2 ^ 63 :: int) mod 1000000 = 0" unfolding e .
      then show False by simp
    qed
    with a d have lt: "n * 1000000 < 2 ^ 63" by linarith
    from roundtrip_whole_ms_nonneg[OF n0 lt]
    obtain k where k: "trunc_toward_zero (float64_mul (Seconds (n * 1000000)) 1000) = k"
      and kn: "k = n \<or> 1 \<le> n \<and> k = n - 1"
      by auto
    have "d = - (n * 1000000)" using d by linarith
    then have "float64_mul (Seconds d) 1000 = - float64_mul (Seconds (n * 1000000)) 1000"
      by (simp only: Seconds_minus float64_mul_minus)
    then have t: "trunc_toward_zero (OffsetInMilliseconds ?p) = - k"
      using k by (simp only: NewPlaybackState_offset trunc_toward_zero_minus)
    have "0 \<le> k" "k \<le> n" using kn n0 by auto
    then have "- (2 ^ 63) \<le> (- k) * 1000000" "(- k) * 1000000 < 2 ^ 63"
      using lt by simp_all
    from Offset_of_trunc[OF t this] have "Offset ?p = Some ((- k) * 1000000)" .
    moreover have "(- k) * 1000000 = d \<or> (- k) * 1000000 = d - sgn d * Millisecond"
      using kn d False by (auto simp add: Millisecond_def algebra_simps)
    ultimately show ?thesis by blast
  qed
qed

end
